theory Spec2Isabelle
  imports Complex_Main "HOL-Library.Word" "HOL-Library.Sublist"
begin

section \<open>The Whisper JNI bridge (whisper\_jni.cpp)\<close>

text \<open>
  The bridge keeps one process-wide pointer \<^verbatim>\<open>static whisper_context* ctx\<close> and offers three
  entry points: \<^verbatim>\<open>nativeInitModel\<close>, \<^verbatim>\<open>nativeTranscribeAudio\<close> and \<^verbatim>\<open>nativeFreeModel\<close>, plus the
  helper \<^verbatim>\<open>read_audio_file\<close>. The libraries it calls (whisper.cpp, dr\_wav, the C++ file streams)
  are outside the bridge: their answers are the fields of an environment record, about which
  nothing is assumed.

  Conventions of the embedding.
  \<^item> A C string is a \<open>string\<close>; the JNI conversions \<^verbatim>\<open>GetStringUTFChars\<close>, \<^verbatim>\<open>NewStringUTF\<close> are the identity.
  \<^item> \<^verbatim>\<open>LOGI\<close> and \<^verbatim>\<open>LOGE\<close> only print; they are left out.
  \<^item> A \<^verbatim>\<open>float\<close> sample is a \<open>real\<close>. The only float arithmetic of the bridge converts a 16-bit
    integer and divides it by \<open>32768 = 2 ^ 15\<close>; both steps are exact in binary32.
  \<^item> \<^verbatim>\<open>size_t\<close> is 64 bits wide, so that sizes are natural numbers without wrap-around, and
    allocation never fails.
  \<^item> Every call of a library function that touches a file or a model context is recorded,
    in order, as a \<open>call\<close>.
\<close>

subsection \<open>Library data\<close>

type_synonym whisper_context = nat

datatype whisper_sampling_strategy = WHISPER_SAMPLING_GREEDY | WHISPER_SAMPLING_BEAM_SEARCH

record whisper_full_params =
  strategy :: whisper_sampling_strategy
  n_threads :: int
  translate :: bool
  language :: string
  print_progress :: bool
  print_realtime :: bool
  print_timestamps :: bool

text \<open>
  The fields of \<^verbatim>\<open>drwav\<close> that the bridge reads, and the stream of frames that
  \<^verbatim>\<open>drwav_read_pcm_frames_f32\<close> delivers from it.
\<close>

record drwav =
  channels :: "16 word"
  sampleRate :: "32 word"
  totalPCMFrameCount :: "64 word"
  pcm_frames_f32 :: "real list"

datatype call =
    Whisper_free whisper_context
  | Whisper_init_from_file string
  | Whisper_full whisper_context whisper_full_params "real list"
  | Drwav_init_file string
  | Drwav_read_pcm_frames_f32 nat
  | Drwav_uninit
  | Ifstream_open string

record env =
  whisper_init_from_file :: "string \<Rightarrow> whisper_context option"
  whisper_full_default_params :: "whisper_sampling_strategy \<Rightarrow> whisper_full_params"
  hardware_concurrency :: "32 word"
  whisper_full :: "whisper_context \<Rightarrow> whisper_full_params \<Rightarrow> real list \<Rightarrow> int"
  whisper_full_n_segments :: "whisper_context \<Rightarrow> int"
  whisper_full_get_segment_text :: "whisper_context \<Rightarrow> int \<Rightarrow> string"
  drwav_init_file :: "string \<Rightarrow> drwav option"
  ifstream_open :: "string \<Rightarrow> 8 word list option"

subsection \<open>read\_audio\_file\<close>

text \<open>\<^verbatim>\<open>strrchr(s, c)\<close>: the part of \<open>s\<close> from the last \<open>c\<close> on, \<open>None\<close> for the null pointer.\<close>

fun strrchr :: "string \<Rightarrow> char \<Rightarrow> string option" where
  "strrchr [] c = None"
| "strrchr (x # xs) c =
     (case strrchr xs c of
        Some r \<Rightarrow> Some r
      | None \<Rightarrow> if x = c then Some (x # xs) else None)"

text \<open>The test \<^verbatim>\<open>ext && strcmp(ext, ".wav") == 0\<close> on \<^verbatim>\<open>ext = strrchr(filename, '.')\<close>.\<close>

definition is_wav_file :: "string \<Rightarrow> bool" where
  "is_wav_file filename =
     (case strrchr filename CHR ''.'' of None \<Rightarrow> False | Some ext \<Rightarrow> ext = ''.wav'')"

text \<open>\<^verbatim>\<open>std::vector::resize(n)\<close>: cut to \<open>n\<close> elements, or fill up with zeros.\<close>

definition resize :: "'a::zero list \<Rightarrow> nat \<Rightarrow> 'a list" where
  "resize v n = take n v @ replicate (n - length v) 0"

text \<open>
  \<^verbatim>\<open>drwav_read_pcm_frames_f32(&wav, n, out)\<close> on a mono file: the first \<open>n\<close> frames of the
  stream (fewer when the stream is shorter) overwrite the front of \<open>out\<close>.
\<close>

definition drwav_read_pcm_frames_f32 :: "drwav \<Rightarrow> nat \<Rightarrow> real list \<Rightarrow> real list" where
  "drwav_read_pcm_frames_f32 wav n out =
     (let got = take n (pcm_frames_f32 wav) in got @ drop (length got) out)"

text \<open>
  \<^verbatim>\<open>file.read(reinterpret_cast<char*>(pcm16.data()), file_size)\<close> on a little-endian machine:
  element \<open>i\<close> of \<open>pcm16\<close> receives the bytes \<open>2 * i\<close> (low) and \<open>2 * i + 1\<close> (high) of the file.
\<close>

definition int16_le :: "8 word \<Rightarrow> 8 word \<Rightarrow> 16 word" where
  "int16_le lo hi = or (ucast lo) (push_bit 8 (ucast hi))"

fun int16s_of_bytes :: "8 word list \<Rightarrow> 16 word list" where
  "int16s_of_bytes (lo # hi # bytes) = int16_le lo hi # int16s_of_bytes bytes"
| "int16s_of_bytes bytes = []"

text \<open>
  The vector \<open>pcm16\<close> holds \<open>file_size / 2\<close> elements, that is \<open>2 * (file_size / 2)\<close> bytes, and the
  read stores \<open>file_size\<close> bytes into it. When \<open>file_size\<close> is odd the last byte is stored behind
  the end of the vector (for a file of one byte the vector is empty): the behaviour of the
  program is undefined from there, which the model records as \<open>None\<close>.
\<close>

definition ifstream_read_pcm16 :: "16 word list \<Rightarrow> 8 word list \<Rightarrow> nat \<Rightarrow> 16 word list option" where
  "ifstream_read_pcm16 pcm16 bytes file_size =
     (let got = take file_size bytes in
      if 2 * length pcm16 < length got then None
      else Some (int16s_of_bytes got @ drop (length (int16s_of_bytes got)) pcm16))"

text \<open>The loop \<^verbatim>\<open>for (size_t i = 0; i < pcm16.size(); i++) pcmf32[i] = static_cast<float>(pcm16[i]) / 32768.0f\<close>.\<close>

function convert_loop :: "16 word list \<Rightarrow> real list \<Rightarrow> nat \<Rightarrow> real list" where
  "convert_loop pcm16 pcmf32 i =
     (if i < length pcm16
      then convert_loop pcm16 (pcmf32[i := real_of_int (sint (pcm16 ! i)) / 32768]) (Suc i)
      else pcmf32)"
  by pat_completeness auto
termination
  by (relation "measure (\<lambda>(pcm16, pcmf32, i). length pcm16 - i)") auto

text \<open>
  The four places where \<^verbatim>\<open>read_audio_file\<close> returns \<^verbatim>\<open>false\<close>, named after the message each
  one logs: "Unsupported file format", "WAV file must be mono", "WAV file must be 16kHz",
  "Failed to open file as raw PCM".
\<close>

datatype decode_error =
    UnsupportedFormat
  | UnsupportedChannelLayout
  | UnsupportedSampleRate
  | IOError

text \<open>
  What a call of \<^verbatim>\<open>read_audio_file\<close> does: it returns \<^verbatim>\<open>true\<close> with the samples in \<open>pcmf32\<close>,
  it returns \<^verbatim>\<open>false\<close> and leaves \<open>pcmf32\<close> as it was, or it writes out of bounds.
\<close>

datatype read_outcome =
    Read_ok "real list"
  | Read_failed decode_error
  | Read_out_of_bounds

definition read_raw_pcm :: "env \<Rightarrow> string \<Rightarrow> real list \<Rightarrow> call list \<times> read_outcome" where
  "read_raw_pcm e filename pcmf32 =
     (case ifstream_open e filename of
        None \<Rightarrow> ([Ifstream_open filename], Read_failed IOError)
      | Some bytes \<Rightarrow>
          (let file_size = length bytes;
               pcm16 = resize [] (file_size div 2)
           in case ifstream_read_pcm16 pcm16 bytes file_size of
                None \<Rightarrow> ([Ifstream_open filename], Read_out_of_bounds)
              | Some pcm16' \<Rightarrow>
                  ([Ifstream_open filename],
                   Read_ok (convert_loop pcm16' (resize pcmf32 (length pcm16')) 0))))"

text \<open>The branch taken when \<^verbatim>\<open>drwav_init_file\<close> has succeeded.\<close>

definition read_wav :: "drwav \<Rightarrow> real list \<Rightarrow> call list \<times> read_outcome" where
  "read_wav wav pcmf32 =
     (if channels wav \<noteq> 1
      then ([Drwav_uninit], Read_failed UnsupportedChannelLayout)
      else if sampleRate wav \<noteq> 16000
      then ([Drwav_uninit], Read_failed UnsupportedSampleRate)
      else
        (let n_samples = unat (totalPCMFrameCount wav)
         in ([Drwav_read_pcm_frames_f32 n_samples, Drwav_uninit],
             Read_ok (drwav_read_pcm_frames_f32 wav n_samples (resize pcmf32 n_samples)))))"

definition read_audio_file :: "env \<Rightarrow> string \<Rightarrow> real list \<Rightarrow> call list \<times> read_outcome" where
  "read_audio_file e filename pcmf32 =
     (if is_wav_file filename
      then (let (cs, r) = (case drwav_init_file e filename of
                             Some wav \<Rightarrow> read_wav wav pcmf32
                           | None \<Rightarrow> read_raw_pcm e filename pcmf32)
            in (Drwav_init_file filename # cs, r))
      else ([], Read_failed UnsupportedFormat))"

subsection \<open>The bridge state and its three entry points\<close>

text \<open>
  \<open>ctx\<close> is the static pointer (\<open>None\<close> for \<^verbatim>\<open>nullptr\<close>). \<open>live\<close> lists the contexts that
  \<^verbatim>\<open>whisper_init_from_file\<close> has created and \<^verbatim>\<open>whisper_free\<close> has not yet destroyed; it is a list,
  not a set, so that nothing need be assumed about the pointers the library hands out.
  \<open>calls\<close> is the record of library calls so far, oldest first.
\<close>

record state =
  ctx :: "whisper_context option"
  live :: "whisper_context list"
  calls :: "call list"

definition initial_state :: state where
  "initial_state = \<lparr>ctx = None, live = [], calls = []\<rparr>"

definition whisper_free :: "whisper_context \<Rightarrow> state \<Rightarrow> state" where
  "whisper_free c s = s\<lparr>live := remove1 c (live s), calls := calls s @ [Whisper_free c]\<rparr>"

definition whisper_init :: "env \<Rightarrow> string \<Rightarrow> state \<Rightarrow> whisper_context option \<times> state" where
  "whisper_init e path s =
     (case whisper_init_from_file e path of
        None \<Rightarrow> (None, s\<lparr>calls := calls s @ [Whisper_init_from_file path]\<rparr>)
      | Some c \<Rightarrow>
          (Some c, s\<lparr>live := live s @ [c], calls := calls s @ [Whisper_init_from_file path]\<rparr>))"

text \<open>The first statement of \<^verbatim>\<open>nativeInitModel\<close>: \<^verbatim>\<open>if (ctx != nullptr) { whisper_free(ctx); ctx = nullptr; }\<close>.\<close>

definition release_ctx :: "state \<Rightarrow> state" where
  "release_ctx s =
     (case ctx s of
        None \<Rightarrow> s
      | Some c \<Rightarrow> (whisper_free c s)\<lparr>ctx := None\<rparr>)"

definition nativeInitModel :: "env \<Rightarrow> string \<Rightarrow> state \<Rightarrow> bool \<times> state" where
  "nativeInitModel e modelPath s =
     (let s1 = release_ctx s;
          (c, s2) = whisper_init e modelPath s1;
          s3 = s2\<lparr>ctx := c\<rparr>
      in if ctx s3 = None then (False, s3) else (True, s3))"

definition nativeFreeModel :: "state \<Rightarrow> state" where
  "nativeFreeModel s =
     (case ctx s of
        None \<Rightarrow> s
      | Some c \<Rightarrow> (whisper_free c s)\<lparr>ctx := None\<rparr>)"

text \<open>The parameters \<^verbatim>\<open>nativeTranscribeAudio\<close> builds before it calls \<^verbatim>\<open>whisper_full\<close>.\<close>

definition transcribe_params :: "env \<Rightarrow> whisper_full_params" where
  "transcribe_params e =
     (whisper_full_default_params e WHISPER_SAMPLING_GREEDY)
       \<lparr>print_realtime := True,
        print_progress := True,
        print_timestamps := True,
        translate := False,
        language := ''en'',
        n_threads := min 4 (sint (hardware_concurrency e))\<rparr>"

text \<open>
  The loop \<^verbatim>\<open>for (int i = 0; i < n_segments; ++i) { result += text; result += " "; }\<close>
  with \<^verbatim>\<open>text = whisper_full_get_segment_text(ctx, i)\<close>.
\<close>

function segment_loop :: "env \<Rightarrow> whisper_context \<Rightarrow> int \<Rightarrow> int \<Rightarrow> string \<Rightarrow> string" where
  "segment_loop e c n_segments i result =
     (if i < n_segments
      then segment_loop e c n_segments (i + 1)
             ((result @ whisper_full_get_segment_text e c i) @ '' '')
      else result)"
  by pat_completeness auto
termination
  by (relation "measure (\<lambda>(e, c, n_segments, i, result). nat (n_segments - i))") auto

text \<open>
  A call of \<^verbatim>\<open>nativeTranscribeAudio\<close> returns a string and leaves a state, or it is cut short
  by the out-of-bounds write of \<^verbatim>\<open>read_audio_file\<close>.
\<close>

datatype transcribe_outcome =
    Returned string state
  | Out_of_bounds

definition nativeTranscribeAudio :: "env \<Rightarrow> string \<Rightarrow> state \<Rightarrow> transcribe_outcome" where
  "nativeTranscribeAudio e audioPath s =
     (case ctx s of
        None \<Rightarrow> Returned ''Error: Model not initialized'' s
      | Some c \<Rightarrow>
          (case read_audio_file e audioPath [] of
             (cs, Read_out_of_bounds) \<Rightarrow> Out_of_bounds
           | (cs, Read_failed err) \<Rightarrow>
               Returned ''Error: Failed to read audio file'' (s\<lparr>calls := calls s @ cs\<rparr>)
           | (cs, Read_ok pcmf32) \<Rightarrow>
               (let s1 = s\<lparr>calls := calls s @ cs\<rparr>
                in if length pcmf32 < 1000
                   then Returned ''Error: Audio file too short'' s1
                   else
                     (let params = transcribe_params e;
                          s2 = s1\<lparr>calls := calls s1 @ [Whisper_full c params pcmf32]\<rparr>
                      in if whisper_full e c params pcmf32 \<noteq> 0
                         then Returned ''Error: Failed to process audio'' s2
                         else
                           (let n_segments = whisper_full_n_segments e c
                            in if n_segments = 0
                               then Returned ''No speech detected'' s2
                               else Returned (segment_loop e c n_segments 0 []) s2)))))"

subsection \<open>Sequences of bridge calls\<close>

text \<open>
  The host calls the three entry points one after the other, each time against whatever the
  libraries and the file system answer at that moment. A run ends early when a call writes
  out of bounds.
\<close>

datatype request =
    InitModel env string
  | TranscribeAudio env string
  | FreeModel

fun step :: "request \<Rightarrow> state \<Rightarrow> state option" where
  "step (InitModel e modelPath) s = Some (snd (nativeInitModel e modelPath s))"
| "step (TranscribeAudio e audioPath) s =
     (case nativeTranscribeAudio e audioPath s of
        Returned r s' \<Rightarrow> Some s'
      | Out_of_bounds \<Rightarrow> None)"
| "step FreeModel s = Some (nativeFreeModel s)"

fun run :: "request list \<Rightarrow> state \<Rightarrow> state option" where
  "run [] s = Some s"
| "run (r # rs) s = (case step r s of None \<Rightarrow> None | Some s' \<Rightarrow> run rs s')"

text \<open>The \<^verbatim>\<open>whisper_free\<close> call that releasing the static pointer makes, if any.\<close>

definition freed :: "state \<Rightarrow> call list" where
  "freed s = (case ctx s of None \<Rightarrow> [] | Some c \<Rightarrow> [Whisper_free c])"

text \<open>The session owns every live context: none when unloaded, exactly the loaded one otherwise.\<close>

definition owns_live :: "state \<Rightarrow> bool" where
  "owns_live s = (live s = (case ctx s of None \<Rightarrow> [] | Some c \<Rightarrow> [c]))"

subsection \<open>A concrete environment\<close>

text \<open>
  Stand-ins for the libraries, used to run the bridge on concrete inputs: two loadable models,
  a few WAV headers, a few files that are no WAV containers, and an inference that reports the
  two segments "Hello" and "world".
\<close>

definition mock_params :: "whisper_sampling_strategy \<Rightarrow> whisper_full_params" where
  "mock_params st =
     \<lparr>strategy = st, n_threads = 1, translate = True, language = ''auto'',
      print_progress = False, print_realtime = False, print_timestamps = False\<rparr>"

definition mono16k :: "nat \<Rightarrow> drwav" where
  "mono16k n =
     \<lparr>channels = 1, sampleRate = 16000, totalPCMFrameCount = of_nat n, pcm_frames_f32 = []\<rparr>"

definition mock_files :: "string \<Rightarrow> 8 word list option" where
  "mock_files p =
     (if p = ''raw.wav'' \<or> p = ''raw.pcm'' then Some [0x00, 0x80, 0xFF, 0x7F]
      else if p = ''one.wav'' then Some [0x01]
      else if p = ''three.wav'' then Some [0x01, 0x02, 0x03]
      else None)"

definition mock_wavs :: "string \<Rightarrow> drwav option" where
  "mock_wavs p =
     (if p = ''speech.wav'' then Some (mono16k 1000)
      else if p = ''short.wav'' then Some (mono16k 999)
      else if p = ''stereo.wav'' then Some ((mono16k 1000)\<lparr>channels := 2\<rparr>)
      else if p = ''cd.wav'' then Some ((mono16k 1000)\<lparr>sampleRate := 44100\<rparr>)
      else None)"

definition mock_env :: env where
  "mock_env =
     \<lparr>whisper_init_from_file =
        (\<lambda>p. if p = ''a.bin'' then Some 1 else if p = ''b.bin'' then Some 2 else None),
      whisper_full_default_params = mock_params,
      hardware_concurrency = 8,
      whisper_full = (\<lambda>c params pcmf32. 0),
      whisper_full_n_segments = (\<lambda>c. 2),
      whisper_full_get_segment_text = (\<lambda>c i. if i = 0 then ''Hello'' else ''world''),
      drwav_init_file = mock_wavs,
      ifstream_open = mock_files\<rparr>"

text \<open>The same libraries with an inference that finds no segment, and with one that fails.\<close>

definition silent_env :: env where
  "silent_env = mock_env\<lparr>whisper_full_n_segments := (\<lambda>c. 0)\<rparr>"

definition failing_env :: env where
  "failing_env = mock_env\<lparr>whisper_full := (\<lambda>c params pcmf32. 1)\<rparr>"

definition loaded_state :: state where
  "loaded_state = \<lparr>ctx = Some 1, live = [1], calls = [Whisper_init_from_file ''a.bin'']\<rparr>"

section \<open>Properties\<close>

subsection \<open>Auxiliary facts\<close>

declare convert_loop.simps [simp del] segment_loop.simps [simp del]

lemmas mock_defs = mock_env_def mock_wavs_def mock_files_def mono16k_def mock_params_def

lemmas read_defs = read_audio_file_def is_wav_file_def read_wav_def read_raw_pcm_def
  ifstream_read_pcm16_def resize_def drwav_read_pcm_frames_f32_def

lemma strrchr_suffix: "strrchr xs c = Some r \<Longrightarrow> suffix r xs"
  by (induction xs) (auto split: option.splits if_splits simp: suffix_Cons)

lemma strrchr_append_wav: "strrchr (p @ ''.wav'') CHR ''.'' = Some ''.wav''"
  by (induction p) simp_all

text \<open>The extension test of the code accepts exactly the paths that end in \<open>.wav\<close>.\<close>

lemma is_wav_file_iff: "is_wav_file filename \<longleftrightarrow> suffix ''.wav'' filename"
proof
  assume "is_wav_file filename"
  then have "strrchr filename CHR ''.'' = Some ''.wav''"
    by (simp add: is_wav_file_def split: option.splits)
  then show "suffix ''.wav'' filename" by (rule strrchr_suffix)
next
  assume "suffix ''.wav'' filename"
  then obtain p where "filename = p @ ''.wav''" by (auto simp: suffix_def)
  then show "is_wav_file filename"
    by (simp only: is_wav_file_def strrchr_append_wav option.case)
qed

lemma length_int16s_of_bytes: "length (int16s_of_bytes bytes) = length bytes div 2"
  by (induction bytes rule: int16s_of_bytes.induct) simp_all

lemma length_resize: "length (resize v n) = n"
  by (simp add: resize_def)

text \<open>The conversion loop overwrites every element from index \<open>i\<close> on.\<close>

lemma convert_loop_eq:
  "length pcmf32 = length pcm16 \<Longrightarrow> i \<le> length pcm16 \<Longrightarrow>
   convert_loop pcm16 pcmf32 i =
     take i pcmf32 @ map (\<lambda>x. real_of_int (sint x) / 32768) (drop i pcm16)"
proof (induction pcm16 pcmf32 i rule: convert_loop.induct)
  case (1 pcm16 pcmf32 i)
  show ?case
  proof (cases "i < length pcm16")
    case True
    let ?v = "real_of_int (sint (pcm16 ! i)) / 32768"
    have "convert_loop pcm16 pcmf32 i = convert_loop pcm16 (pcmf32[i := ?v]) (Suc i)"
      using True by (subst convert_loop.simps) simp
    also have "\<dots> = take (Suc i) (pcmf32[i := ?v]) @
        map (\<lambda>x. real_of_int (sint x) / 32768) (drop (Suc i) pcm16)"
      using True "1.prems" by (intro "1.IH") simp_all
    finally have unrolled: "convert_loop pcm16 pcmf32 i =
        take (Suc i) (pcmf32[i := ?v]) @
        map (\<lambda>x. real_of_int (sint x) / 32768) (drop (Suc i) pcm16)" .
    have front: "take (Suc i) (pcmf32[i := ?v]) = take i pcmf32 @ [?v]"
      using True "1.prems" by (simp add: take_Suc_conv_app_nth)
    have rest: "drop i pcm16 = pcm16 ! i # drop (Suc i) pcm16"
      using True by (simp add: Cons_nth_drop_Suc)
    show ?thesis unfolding unrolled front by (subst rest) simp
  next
    case False
    with "1.prems" show ?thesis by (subst convert_loop.simps) simp
  qed
qed

text \<open>The segment loop appends, for each index from \<open>i\<close> to \<open>n - 1\<close>, the text and one space.\<close>

lemma segment_loop_eq:
  "segment_loop e c n i result =
     result @ concat (map (\<lambda>j. whisper_full_get_segment_text e c j @ '' '') [i..n - 1])"
proof (induction e c n i result rule: segment_loop.induct)
  case (1 e c n i result)
  show ?case
  proof (cases "i < n")
    case True
    then have "[i..n - 1] = i # [i + 1..n - 1]" by (simp add: upto_rec1)
    with True 1 show ?thesis by (subst segment_loop.simps) simp
  next
    case False
    then show ?thesis by (subst segment_loop.simps) simp
  qed
qed

lemma ifstream_read_pcm16_even:
  "even (length bytes) \<Longrightarrow>
   ifstream_read_pcm16 (resize [] (length bytes div 2)) bytes (length bytes) =
     Some (int16s_of_bytes bytes)"
  by (auto simp: ifstream_read_pcm16_def length_resize length_int16s_of_bytes)

lemma ifstream_read_pcm16_odd:
  "odd (length bytes) \<Longrightarrow>
   ifstream_read_pcm16 (resize [] (length bytes div 2)) bytes (length bytes) = None"
  by (auto simp: ifstream_read_pcm16_def length_resize elim!: oddE)

text \<open>
  The raw-PCM branch on a file that opens: with an even number of bytes it returns the
  little-endian 16-bit samples of the whole content, each divided by 32768; with an odd number
  of bytes it writes behind the end of \<open>pcm16\<close>.
\<close>

lemma read_raw_pcm_even:
  assumes "ifstream_open e filename = Some bytes" and "even (length bytes)"
  shows "read_raw_pcm e filename pcmf32 =
           ([Ifstream_open filename],
            Read_ok (map (\<lambda>x. real_of_int (sint x) / 32768) (int16s_of_bytes bytes)))"
  using assms
  by (simp add: read_raw_pcm_def ifstream_read_pcm16_even convert_loop_eq length_resize)

lemma read_raw_pcm_odd:
  assumes "ifstream_open e filename = Some bytes" and "odd (length bytes)"
  shows "read_raw_pcm e filename pcmf32 = ([Ifstream_open filename], Read_out_of_bounds)"
  using assms
  by (simp add: read_raw_pcm_def ifstream_read_pcm16_odd)

lemma read_raw_pcm_closed:
  "ifstream_open e filename = None \<Longrightarrow>
   read_raw_pcm e filename pcmf32 = ([Ifstream_open filename], Read_failed IOError)"
  by (simp add: read_raw_pcm_def)

lemma sint16_range: "(- 32768 :: int) \<le> sint (x :: 16 word) \<and> sint x \<le> (32767 :: int)"
  using sint_ge [of x] sint_lt [of x] by simp

lemma sample_range:
  "- 1 \<le> real_of_int (sint (x :: 16 word)) / 32768 \<and>
   real_of_int (sint x) / 32768 \<le> 32767 / 32768"
proof -
  have lo: "real_of_int (- 32768) \<le> real_of_int (sint x)"
    using sint16_range [of x] by (simp only: of_int_le_iff)
  have hi: "real_of_int (sint x) \<le> real_of_int 32767"
    using sint16_range [of x] by (simp only: of_int_le_iff)
  from lo hi show ?thesis by (simp del: of_int_sint)
qed

lemma read_speech:
  "read_audio_file mock_env ''speech.wav'' [] =
     ([Drwav_init_file ''speech.wav'', Drwav_read_pcm_frames_f32 1000, Drwav_uninit],
      Read_ok (replicate 1000 0))"
  by (simp add: read_defs mock_defs)

lemma read_short:
  "read_audio_file mock_env ''short.wav'' [] =
     ([Drwav_init_file ''short.wav'', Drwav_read_pcm_frames_f32 999, Drwav_uninit],
      Read_ok (replicate 999 0))"
  by (simp add: read_defs mock_defs)

subsection \<open>The decoder\<close>

text \<open>
  Claim C6. A path that does not end in \<open>.wav\<close> makes \<^verbatim>\<open>read_audio_file\<close> return \<^verbatim>\<open>false\<close> at
  once, through the "Unsupported file format" exit, whatever the file holds: no library is called,
  so neither dr\_wav nor the raw-PCM reader ever sees the file.
\<close>

theorem other_suffix_unsupported:
  "\<not> suffix ''.wav'' filename \<Longrightarrow>
   read_audio_file e filename pcmf32 = ([], Read_failed UnsupportedFormat)"
  by (simp add: read_audio_file_def is_wav_file_iff)

theorem other_suffix_unsupported_witness:
  "\<not> suffix ''.wav'' ''raw.pcm'' \<and>
   ifstream_open mock_env ''raw.pcm'' = Some [0x00, 0x80, 0xFF, 0x7F] \<and>
   read_audio_file mock_env ''raw.pcm'' [] = ([], Read_failed UnsupportedFormat)"
proof -
  have h: "\<not> suffix ''.wav'' ''raw.pcm''" by (simp add: suffix_to_prefix)
  show ?thesis
    using h other_suffix_unsupported [OF h, of mock_env "[]"]
    by (simp add: mock_env_def mock_files_def)
qed

text \<open>
  Claim C2. When the path ends in \<open>.wav\<close> and \<^verbatim>\<open>drwav_init_file\<close> succeeds, a channel count
  other than 1 ends the call through the "must be mono" exit, and a mono file with a sample rate
  other than 16000 ends it through the "must be 16kHz" exit; in both cases the only library calls
  are \<^verbatim>\<open>drwav_init_file\<close> and \<^verbatim>\<open>drwav_uninit\<close>. In general the raw-PCM reader opens a file
  exactly when the path ends in \<open>.wav\<close> and \<^verbatim>\<open>drwav_init_file\<close> has failed on it.
\<close>

theorem wav_validation_failure_is_terminal:
  "(suffix ''.wav'' filename \<and> drwav_init_file e filename = Some wav \<longrightarrow>
      (channels wav \<noteq> 1 \<longrightarrow>
         read_audio_file e filename pcmf32 =
           ([Drwav_init_file filename, Drwav_uninit], Read_failed UnsupportedChannelLayout)) \<and>
      (channels wav = 1 \<and> sampleRate wav \<noteq> 16000 \<longrightarrow>
         read_audio_file e filename pcmf32 =
           ([Drwav_init_file filename, Drwav_uninit], Read_failed UnsupportedSampleRate))) \<and>
   (Ifstream_open p \<in> set (fst (read_audio_file e filename pcmf32)) \<longleftrightarrow>
      p = filename \<and> suffix ''.wav'' filename \<and> drwav_init_file e filename = None)"
proof -
  have wav: "fst (read_wav w pcmf32) = [Drwav_uninit] \<or>
      (\<exists>n. fst (read_wav w pcmf32) = [Drwav_read_pcm_frames_f32 n, Drwav_uninit])" for w
    by (simp add: read_wav_def Let_def)
  have raw: "fst (read_raw_pcm e filename pcmf32) = [Ifstream_open filename]"
    by (simp add: read_raw_pcm_def Let_def split: option.splits)
  have calls: "Ifstream_open p \<in> set (fst (read_audio_file e filename pcmf32)) \<longleftrightarrow>
      p = filename \<and> suffix ''.wav'' filename \<and> drwav_init_file e filename = None"
  proof (cases "drwav_init_file e filename")
    case None
    then show ?thesis
      using raw by (auto simp: read_audio_file_def is_wav_file_iff split: prod.splits)
  next
    case (Some w)
    then show ?thesis
      using wav [of w] by (auto simp: read_audio_file_def is_wav_file_iff split: prod.splits)
  qed
  have fails: "suffix ''.wav'' filename \<and> drwav_init_file e filename = Some wav \<longrightarrow>
      (channels wav \<noteq> 1 \<longrightarrow>
         read_audio_file e filename pcmf32 =
           ([Drwav_init_file filename, Drwav_uninit], Read_failed UnsupportedChannelLayout)) \<and>
      (channels wav = 1 \<and> sampleRate wav \<noteq> 16000 \<longrightarrow>
         read_audio_file e filename pcmf32 =
           ([Drwav_init_file filename, Drwav_uninit], Read_failed UnsupportedSampleRate))"
    by (simp add: read_audio_file_def is_wav_file_iff read_wav_def)
  from fails calls show ?thesis by (rule conjI)
qed

theorem wav_validation_failure_is_terminal_witness:
  "suffix ''.wav'' ''stereo.wav'' \<and>
   drwav_init_file mock_env ''stereo.wav'' = Some ((mono16k 1000)\<lparr>channels := 2\<rparr>) \<and>
   read_audio_file mock_env ''stereo.wav'' [] =
     ([Drwav_init_file ''stereo.wav'', Drwav_uninit], Read_failed UnsupportedChannelLayout) \<and>
   suffix ''.wav'' ''cd.wav'' \<and>
   drwav_init_file mock_env ''cd.wav'' = Some ((mono16k 1000)\<lparr>sampleRate := 44100\<rparr>) \<and>
   read_audio_file mock_env ''cd.wav'' [] =
     ([Drwav_init_file ''cd.wav'', Drwav_uninit], Read_failed UnsupportedSampleRate) \<and>
   Ifstream_open ''stereo.wav'' \<notin> set (fst (read_audio_file mock_env ''stereo.wav'' [])) \<and>
   Ifstream_open ''raw.wav'' \<in> set (fst (read_audio_file mock_env ''raw.wav'' []))"
  using wav_validation_failure_is_terminal
          [of "''stereo.wav''" mock_env "(mono16k 1000)\<lparr>channels := 2\<rparr>" "[]" "''stereo.wav''"]
        wav_validation_failure_is_terminal
          [of "''cd.wav''" mock_env "(mono16k 1000)\<lparr>sampleRate := 44100\<rparr>" "[]" "''cd.wav''"]
        wav_validation_failure_is_terminal
          [of "''raw.wav''" mock_env "mono16k 0" "[]" "''raw.wav''"]
  by (simp add: suffix_to_prefix mock_defs)

text \<open>
  What \<^verbatim>\<open>read_audio_file\<close> does on a \<open>.wav\<close> path that dr\_wav rejects: it returns \<^verbatim>\<open>false\<close>
  exactly when the file does not open; a file with an even number of bytes gives the 16-bit
  little-endian samples of its whole content, each divided by 32768.
\<close>

lemma raw_pcm_fallback:
  assumes "suffix ''.wav'' filename" and "drwav_init_file e filename = None"
  shows "read_audio_file e filename pcmf32 =
    ([Drwav_init_file filename, Ifstream_open filename],
     (case ifstream_open e filename of
        None \<Rightarrow> Read_failed IOError
      | Some bytes \<Rightarrow>
          if even (length bytes)
          then Read_ok (map (\<lambda>x. real_of_int (sint x) / 32768) (int16s_of_bytes bytes))
          else Read_out_of_bounds))"
proof (cases "ifstream_open e filename")
  case None
  with assms show ?thesis
    by (simp add: read_audio_file_def is_wav_file_iff read_raw_pcm_closed)
next
  case (Some bytes)
  show ?thesis
  proof (cases "even (length bytes)")
    case True
    with assms Some show ?thesis
      by (simp add: read_audio_file_def is_wav_file_iff read_raw_pcm_even)
  next
    case False
    with assms Some show ?thesis
      by (simp add: read_audio_file_def is_wav_file_iff read_raw_pcm_odd)
  qed
qed

lemma raw_pcm_samples_even:
  assumes "suffix ''.wav'' filename" and "drwav_init_file e filename = None"
    and "ifstream_open e filename = Some bytes" and "even (length bytes)"
  shows "\<exists>samples. snd (read_audio_file e filename pcmf32) = Read_ok samples \<and>
           length samples = length bytes div 2 \<and>
           (\<forall>x \<in> set samples. - 1 \<le> x \<and> x \<le> 32767 / 32768)"
  using assms sample_range
  by (auto simp: raw_pcm_fallback length_int16s_of_bytes simp del: of_int_sint)

text \<open>
  Claim C3. The claim lets every \<open>.wav\<close> path on which \<^verbatim>\<open>drwav_init_file\<close> fails be decoded as raw
  16-bit PCM unless the file cannot be opened. On a file of one byte the code does take the raw
  branch and opens the file, but then stores the byte into a vector without elements: the call
  does not come back with samples, and the transcription is cut short with it.
  (For files with an even number of bytes the claim holds, see \<open>raw_pcm_fallback\<close>.)
\<close>

theorem raw_fallback_one_byte:
  "suffix ''.wav'' ''one.wav'' \<and>
   drwav_init_file mock_env ''one.wav'' = None \<and>
   ifstream_open mock_env ''one.wav'' = Some [0x01] \<and>
   read_audio_file mock_env ''one.wav'' [] =
     ([Drwav_init_file ''one.wav'', Ifstream_open ''one.wav''], Read_out_of_bounds) \<and>
   nativeTranscribeAudio mock_env ''one.wav'' loaded_state = Out_of_bounds"
proof -
  have dec: "read_audio_file mock_env ''one.wav'' [] =
     ([Drwav_init_file ''one.wav'', Ifstream_open ''one.wav''], Read_out_of_bounds)"
    by (simp add: read_defs mock_defs)
  then show ?thesis
    by (simp add: nativeTranscribeAudio_def loaded_state_def suffix_to_prefix mock_defs)
qed

text \<open>
  Claim C10. The claim lets the raw branch succeed on every file that opens, with
  \<open>file_size div 2\<close> samples. On a file of one byte the vector \<open>pcm16\<close> is resized to no element
  and the read stores one byte into it; on a file of three bytes the vector has one element, two
  bytes, and the read stores three: an out-of-bounds write instead of a buffer of 0 or 1 samples.
  (Length and range of the samples for an even number of bytes are \<open>raw_pcm_samples_even\<close>.)
\<close>

theorem raw_pcm_odd_size_out_of_bounds:
  "ifstream_open mock_env ''one.wav'' = Some [0x01] \<and>
   resize ([] :: 16 word list) (length [0x01 :: 8 word] div 2) = [] \<and>
   ifstream_read_pcm16 [] [0x01] 1 = None \<and>
   read_raw_pcm mock_env ''one.wav'' [] = ([Ifstream_open ''one.wav''], Read_out_of_bounds) \<and>
   ifstream_open mock_env ''three.wav'' = Some [0x01, 0x02, 0x03] \<and>
   resize ([] :: 16 word list) (length [0x01, 0x02, 0x03 :: 8 word] div 2) = [0] \<and>
   ifstream_read_pcm16 [0] [0x01, 0x02, 0x03] 3 = None \<and>
   read_raw_pcm mock_env ''three.wav'' [] = ([Ifstream_open ''three.wav''], Read_out_of_bounds)"
  by (simp add: read_defs mock_defs)

lemma read_audio_file_no_inference:
  "Whisper_full c ps xs \<notin> set (fst (read_audio_file e filename pcmf32))"
  by (auto simp: read_audio_file_def read_wav_def read_raw_pcm_def Let_def
      split: option.splits prod.splits if_splits)

lemma mock_env_sel:
  "whisper_full mock_env c ps xs = 0"
  "whisper_full_n_segments mock_env c = 2"
  "whisper_full_get_segment_text mock_env c i = (if i = 0 then ''Hello'' else ''world'')"
  by (simp_all add: mock_env_def)

lemma silent_env_sel:
  "whisper_full silent_env c ps xs = 0"
  "whisper_full_n_segments silent_env c = 0"
  by (simp_all add: silent_env_def mock_env_def)

lemma failing_env_sel:
  "whisper_full failing_env c ps xs = 1"
  by (simp add: failing_env_def mock_env_def)

lemma upto_0_1: "[0..1] = [0, 1::int]"
  by (simp add: upto.simps)

lemma read_speech_silent:
  "read_audio_file silent_env ''speech.wav'' [] =
     ([Drwav_init_file ''speech.wav'', Drwav_read_pcm_frames_f32 1000, Drwav_uninit],
      Read_ok (replicate 1000 0))"
  by (simp add: read_defs mock_defs silent_env_def)

lemma read_speech_failing:
  "read_audio_file failing_env ''speech.wav'' [] =
     ([Drwav_init_file ''speech.wav'', Drwav_read_pcm_frames_f32 1000, Drwav_uninit],
      Read_ok (replicate 1000 0))"
  by (simp add: read_defs mock_defs failing_env_def)

text \<open>A call that returns has neither replaced nor released the context.\<close>

lemma transcribe_unchanged:
  assumes ret: "nativeTranscribeAudio e audioPath s = Returned r s'"
  shows "ctx s' = ctx s \<and> live s' = live s"
proof (cases "ctx s")
  case None
  with ret show ?thesis by (simp add: nativeTranscribeAudio_def)
next
  case (Some c)
  obtain cs out where dec: "read_audio_file e audioPath [] = (cs, out)"
    by (cases "read_audio_file e audioPath []")
  show ?thesis
  proof (cases out)
    case (Read_ok pcmf32)
    with ret Some dec show ?thesis
      by (auto simp: nativeTranscribeAudio_def Let_def split: if_splits)
  next
    case (Read_failed err)
    with ret Some dec show ?thesis by (auto simp: nativeTranscribeAudio_def)
  next
    case Read_out_of_bounds
    with ret Some dec show ?thesis by (simp add: nativeTranscribeAudio_def)
  qed
qed

subsection \<open>Transcription\<close>

text \<open>
  Claim C5. While the static pointer is null, \<^verbatim>\<open>nativeTranscribeAudio\<close> returns
  "Error: Model not initialized" and leaves the state as it found it, the record of library calls
  included: nothing is opened, parsed or read, whatever the path and the files are. The pointer
  is null at process start and after \<^verbatim>\<open>nativeFreeModel\<close>.
\<close>
theorem transcribe_model_not_ready:
  "(ctx s = None \<longrightarrow>
      nativeTranscribeAudio e audioPath s = Returned ''Error: Model not initialized'' s) \<and>
   nativeTranscribeAudio e audioPath initial_state =
     Returned ''Error: Model not initialized'' initial_state \<and>
   nativeTranscribeAudio e audioPath (nativeFreeModel s) =
     Returned ''Error: Model not initialized'' (nativeFreeModel s)"
proof -
  have "ctx (nativeFreeModel s) = None"
    by (simp add: nativeFreeModel_def whisper_free_def split: option.splits)
  then show ?thesis
    by (simp add: nativeTranscribeAudio_def initial_state_def)
qed

theorem transcribe_model_not_ready_witness:
  "ctx initial_state = None \<and>
   nativeTranscribeAudio mock_env ''speech.wav'' initial_state =
     Returned ''Error: Model not initialized'' initial_state \<and>
   nativeTranscribeAudio mock_env ''speech.wav'' (nativeFreeModel loaded_state) =
     Returned ''Error: Model not initialized''
       \<lparr>ctx = None, live = [], calls = [Whisper_init_from_file ''a.bin'', Whisper_free 1]\<rparr>"
  using transcribe_model_not_ready [of initial_state mock_env "''speech.wav''"]
        transcribe_model_not_ready [of loaded_state mock_env "''speech.wav''"]
  by (simp add: initial_state_def loaded_state_def nativeFreeModel_def whisper_free_def)

text \<open>
  Claim C4. With a loaded model and a decoded buffer, fewer than 1000 samples end the call with
  "Error: Audio file too short", the only library calls being those of the decoder, none of them
  \<^verbatim>\<open>whisper_full\<close>; with 1000 samples or more the call goes on to \<^verbatim>\<open>whisper_full\<close> on that buffer.
\<close>
theorem minimum_length_check:
  "ctx s = Some c \<and> read_audio_file e audioPath [] = (cs, Read_ok pcmf32) \<longrightarrow>
     (length pcmf32 < 1000 \<longrightarrow>
        nativeTranscribeAudio e audioPath s =
          Returned ''Error: Audio file too short'' (s\<lparr>calls := calls s @ cs\<rparr>) \<and>
        (\<forall>c' ps xs. Whisper_full c' ps xs \<notin> set cs)) \<and>
     (1000 \<le> length pcmf32 \<longrightarrow>
        (\<exists>r. nativeTranscribeAudio e audioPath s =
           Returned r (s\<lparr>calls := calls s @ cs @ [Whisper_full c (transcribe_params e) pcmf32]\<rparr>)))"
proof (intro impI, elim conjE)
  assume ready: "ctx s = Some c" and dec: "read_audio_file e audioPath [] = (cs, Read_ok pcmf32)"
  have quiet: "\<forall>c' ps xs. Whisper_full c' ps xs \<notin> set cs"
    using read_audio_file_no_inference [of _ _ _ e audioPath "[]"] dec by simp
  have short: "length pcmf32 < 1000 \<longrightarrow>
      nativeTranscribeAudio e audioPath s =
        Returned ''Error: Audio file too short'' (s\<lparr>calls := calls s @ cs\<rparr>)"
    using ready dec by (simp add: nativeTranscribeAudio_def)
  have long: "1000 \<le> length pcmf32 \<longrightarrow>
      (\<exists>r. nativeTranscribeAudio e audioPath s =
         Returned r (s\<lparr>calls := calls s @ cs @ [Whisper_full c (transcribe_params e) pcmf32]\<rparr>))"
    using ready dec by (simp add: nativeTranscribeAudio_def Let_def)
  from quiet short long
  show "(length pcmf32 < 1000 \<longrightarrow>
        nativeTranscribeAudio e audioPath s =
          Returned ''Error: Audio file too short'' (s\<lparr>calls := calls s @ cs\<rparr>) \<and>
        (\<forall>c' ps xs. Whisper_full c' ps xs \<notin> set cs)) \<and>
     (1000 \<le> length pcmf32 \<longrightarrow>
        (\<exists>r. nativeTranscribeAudio e audioPath s =
           Returned r (s\<lparr>calls := calls s @ cs @ [Whisper_full c (transcribe_params e) pcmf32]\<rparr>)))"
    by blast
qed

theorem minimum_length_check_witness:
  "ctx loaded_state = Some 1 \<and>
   read_audio_file mock_env ''short.wav'' [] =
     ([Drwav_init_file ''short.wav'', Drwav_read_pcm_frames_f32 999, Drwav_uninit],
      Read_ok (replicate 999 0)) \<and>
   length (replicate 999 (0::real)) = 999 \<and>
   nativeTranscribeAudio mock_env ''short.wav'' loaded_state =
     Returned ''Error: Audio file too short''
       (loaded_state\<lparr>calls := calls loaded_state @
          [Drwav_init_file ''short.wav'', Drwav_read_pcm_frames_f32 999, Drwav_uninit]\<rparr>) \<and>
   read_audio_file mock_env ''speech.wav'' [] =
     ([Drwav_init_file ''speech.wav'', Drwav_read_pcm_frames_f32 1000, Drwav_uninit],
      Read_ok (replicate 1000 0)) \<and>
   length (replicate 1000 (0::real)) = 1000 \<and>
   (\<exists>r. nativeTranscribeAudio mock_env ''speech.wav'' loaded_state =
      Returned r
        (loaded_state\<lparr>calls := calls loaded_state @
           [Drwav_init_file ''speech.wav'', Drwav_read_pcm_frames_f32 1000, Drwav_uninit,
            Whisper_full 1 (transcribe_params mock_env) (replicate 1000 0)]\<rparr>))"
  using minimum_length_check
          [of loaded_state 1 mock_env "''short.wav''"
              "[Drwav_init_file ''short.wav'', Drwav_read_pcm_frames_f32 999, Drwav_uninit]"
              "replicate 999 0"]
        minimum_length_check
          [of loaded_state 1 mock_env "''speech.wav''"
              "[Drwav_init_file ''speech.wav'', Drwav_read_pcm_frames_f32 1000, Drwav_uninit]"
              "replicate 1000 0"]
  by (simp add: read_speech read_short loaded_state_def)

text \<open>
  Claim C1. With a loaded model, a decoded buffer of at least 1000 samples and \<^verbatim>\<open>whisper_full\<close>
  returning 0, the returned string is "No speech detected" when \<^verbatim>\<open>whisper_full_n_segments\<close> is 0,
  and otherwise the texts of the segments \<open>0, \<dots>, n - 1\<close> in this order, each followed by one space.
\<close>
theorem transcript_assembly:
  "ctx s = Some c \<and> read_audio_file e audioPath [] = (cs, Read_ok pcmf32) \<and>
   1000 \<le> length pcmf32 \<and> whisper_full e c (transcribe_params e) pcmf32 = 0 \<longrightarrow>
     nativeTranscribeAudio e audioPath s =
       Returned
         (if whisper_full_n_segments e c = 0 then ''No speech detected''
          else concat (map (\<lambda>i. whisper_full_get_segment_text e c i @ '' '')
                 [0..whisper_full_n_segments e c - 1]))
         (s\<lparr>calls := calls s @ cs @ [Whisper_full c (transcribe_params e) pcmf32]\<rparr>)"
  by (simp add: nativeTranscribeAudio_def Let_def segment_loop_eq)

theorem transcript_assembly_witness:
  "ctx loaded_state = Some 1 \<and>
   read_audio_file mock_env ''speech.wav'' [] =
     ([Drwav_init_file ''speech.wav'', Drwav_read_pcm_frames_f32 1000, Drwav_uninit],
      Read_ok (replicate 1000 0)) \<and>
   1000 \<le> length (replicate 1000 (0::real)) \<and>
   whisper_full mock_env 1 (transcribe_params mock_env) (replicate 1000 0) = 0 \<and>
   whisper_full_n_segments mock_env 1 = 2 \<and>
   whisper_full_get_segment_text mock_env 1 0 = ''Hello'' \<and>
   whisper_full_get_segment_text mock_env 1 1 = ''world'' \<and>
   nativeTranscribeAudio mock_env ''speech.wav'' loaded_state =
     Returned ''Hello world ''
       (loaded_state\<lparr>calls := calls loaded_state @
          [Drwav_init_file ''speech.wav'', Drwav_read_pcm_frames_f32 1000, Drwav_uninit,
           Whisper_full 1 (transcribe_params mock_env) (replicate 1000 0)]\<rparr>) \<and>
   whisper_full_n_segments silent_env 1 = 0 \<and>
   nativeTranscribeAudio silent_env ''speech.wav'' loaded_state =
     Returned ''No speech detected''
       (loaded_state\<lparr>calls := calls loaded_state @
          [Drwav_init_file ''speech.wav'', Drwav_read_pcm_frames_f32 1000, Drwav_uninit,
           Whisper_full 1 (transcribe_params silent_env) (replicate 1000 0)]\<rparr>)"
proof -
  have hello: "nativeTranscribeAudio mock_env ''speech.wav'' loaded_state =
     Returned ''Hello world ''
       (loaded_state\<lparr>calls := calls loaded_state @
          [Drwav_init_file ''speech.wav'', Drwav_read_pcm_frames_f32 1000, Drwav_uninit,
           Whisper_full 1 (transcribe_params mock_env) (replicate 1000 0)]\<rparr>)"
    using transcript_assembly
          [of loaded_state 1 mock_env "''speech.wav''"
              "[Drwav_init_file ''speech.wav'', Drwav_read_pcm_frames_f32 1000, Drwav_uninit]"
              "replicate 1000 0"]
    by (simp add: read_speech loaded_state_def mock_env_sel upto_0_1)
  have silent: "nativeTranscribeAudio silent_env ''speech.wav'' loaded_state =
     Returned ''No speech detected''
       (loaded_state\<lparr>calls := calls loaded_state @
          [Drwav_init_file ''speech.wav'', Drwav_read_pcm_frames_f32 1000, Drwav_uninit,
           Whisper_full 1 (transcribe_params silent_env) (replicate 1000 0)]\<rparr>)"
    using transcript_assembly
          [of loaded_state 1 silent_env "''speech.wav''"
              "[Drwav_init_file ''speech.wav'', Drwav_read_pcm_frames_f32 1000, Drwav_uninit]"
              "replicate 1000 0"]
    by (simp add: read_speech_silent loaded_state_def silent_env_sel)
  show ?thesis
    using hello silent
    by (simp add: read_speech loaded_state_def silent_env_sel mock_env_sel)
qed

text \<open>
  Claim C7. Each of the four failures returns its own message and nothing else: a null pointer
  "Error: Model not initialized", a decoder returning \<^verbatim>\<open>false\<close> "Error: Failed to read audio file",
  a buffer under 1000 samples "Error: Audio file too short", a non-zero \<^verbatim>\<open>whisper_full\<close>
  "Error: Failed to process audio". Whenever the call returns, the static pointer and the live
  contexts are what they were before, so a loaded session stays loaded.
\<close>
theorem transcribe_failures:
  "(ctx s = None \<longrightarrow>
      nativeTranscribeAudio e audioPath s = Returned ''Error: Model not initialized'' s) \<and>
   (\<forall>c cs err. ctx s = Some c \<and> read_audio_file e audioPath [] = (cs, Read_failed err) \<longrightarrow>
      nativeTranscribeAudio e audioPath s =
        Returned ''Error: Failed to read audio file'' (s\<lparr>calls := calls s @ cs\<rparr>)) \<and>
   (\<forall>c cs pcmf32. ctx s = Some c \<and> read_audio_file e audioPath [] = (cs, Read_ok pcmf32) \<and>
        length pcmf32 < 1000 \<longrightarrow>
      nativeTranscribeAudio e audioPath s =
        Returned ''Error: Audio file too short'' (s\<lparr>calls := calls s @ cs\<rparr>)) \<and>
   (\<forall>c cs pcmf32. ctx s = Some c \<and> read_audio_file e audioPath [] = (cs, Read_ok pcmf32) \<and>
        1000 \<le> length pcmf32 \<and> whisper_full e c (transcribe_params e) pcmf32 \<noteq> 0 \<longrightarrow>
      nativeTranscribeAudio e audioPath s =
        Returned ''Error: Failed to process audio''
          (s\<lparr>calls := calls s @ cs @ [Whisper_full c (transcribe_params e) pcmf32]\<rparr>)) \<and>
   (\<forall>r s'. nativeTranscribeAudio e audioPath s = Returned r s' \<longrightarrow>
      ctx s' = ctx s \<and> live s' = live s)"
proof -
  have not_ready: "ctx s = None \<longrightarrow>
      nativeTranscribeAudio e audioPath s = Returned ''Error: Model not initialized'' s"
    by (simp add: nativeTranscribeAudio_def)
  have read_failed: "\<forall>c cs err.
      ctx s = Some c \<and> read_audio_file e audioPath [] = (cs, Read_failed err) \<longrightarrow>
      nativeTranscribeAudio e audioPath s =
        Returned ''Error: Failed to read audio file'' (s\<lparr>calls := calls s @ cs\<rparr>)"
    by (simp add: nativeTranscribeAudio_def)
  have too_short: "\<forall>c cs pcmf32.
      ctx s = Some c \<and> read_audio_file e audioPath [] = (cs, Read_ok pcmf32) \<and>
        length pcmf32 < 1000 \<longrightarrow>
      nativeTranscribeAudio e audioPath s =
        Returned ''Error: Audio file too short'' (s\<lparr>calls := calls s @ cs\<rparr>)"
    by (simp add: nativeTranscribeAudio_def)
  have inference_failed: "\<forall>c cs pcmf32.
      ctx s = Some c \<and> read_audio_file e audioPath [] = (cs, Read_ok pcmf32) \<and>
        1000 \<le> length pcmf32 \<and> whisper_full e c (transcribe_params e) pcmf32 \<noteq> 0 \<longrightarrow>
      nativeTranscribeAudio e audioPath s =
        Returned ''Error: Failed to process audio''
          (s\<lparr>calls := calls s @ cs @ [Whisper_full c (transcribe_params e) pcmf32]\<rparr>)"
    by (simp add: nativeTranscribeAudio_def Let_def)
  have unchanged: "\<forall>r s'. nativeTranscribeAudio e audioPath s = Returned r s' \<longrightarrow>
      ctx s' = ctx s \<and> live s' = live s"
    using transcribe_unchanged by blast
  from not_ready read_failed too_short inference_failed unchanged
  show ?thesis by blast
qed

theorem transcribe_failures_witness:
  "ctx initial_state = None \<and>
   nativeTranscribeAudio mock_env ''speech.wav'' initial_state =
     Returned ''Error: Model not initialized'' initial_state \<and>
   ctx loaded_state = Some 1 \<and>
   read_audio_file mock_env ''stereo.wav'' [] =
     ([Drwav_init_file ''stereo.wav'', Drwav_uninit], Read_failed UnsupportedChannelLayout) \<and>
   nativeTranscribeAudio mock_env ''stereo.wav'' loaded_state =
     Returned ''Error: Failed to read audio file''
       (loaded_state\<lparr>calls := calls loaded_state @
          [Drwav_init_file ''stereo.wav'', Drwav_uninit]\<rparr>) \<and>
   nativeTranscribeAudio mock_env ''short.wav'' loaded_state =
     Returned ''Error: Audio file too short''
       (loaded_state\<lparr>calls := calls loaded_state @
          [Drwav_init_file ''short.wav'', Drwav_read_pcm_frames_f32 999, Drwav_uninit]\<rparr>) \<and>
   whisper_full failing_env 1 (transcribe_params failing_env) (replicate 1000 0) \<noteq> 0 \<and>
   nativeTranscribeAudio failing_env ''speech.wav'' loaded_state =
     Returned ''Error: Failed to process audio''
       (loaded_state\<lparr>calls := calls loaded_state @
          [Drwav_init_file ''speech.wav'', Drwav_read_pcm_frames_f32 1000, Drwav_uninit,
           Whisper_full 1 (transcribe_params failing_env) (replicate 1000 0)]\<rparr>)"
proof -
  have stereo: "read_audio_file mock_env ''stereo.wav'' [] =
     ([Drwav_init_file ''stereo.wav'', Drwav_uninit], Read_failed UnsupportedChannelLayout)"
    by (simp add: read_defs mock_defs)
  have ready: "ctx loaded_state = Some 1" by (simp add: loaded_state_def)
  have bad: "whisper_full failing_env 1 (transcribe_params failing_env) (replicate 1000 0) \<noteq> 0"
    by (simp add: failing_env_sel)
  have empty: "ctx initial_state = None" by (simp add: initial_state_def)
  have r1: "nativeTranscribeAudio mock_env ''speech.wav'' initial_state =
      Returned ''Error: Model not initialized'' initial_state"
    using transcribe_failures [of initial_state mock_env "''speech.wav''"] empty by blast
  have r2: "nativeTranscribeAudio mock_env ''stereo.wav'' loaded_state =
      Returned ''Error: Failed to read audio file''
        (loaded_state\<lparr>calls := calls loaded_state @
           [Drwav_init_file ''stereo.wav'', Drwav_uninit]\<rparr>)"
    using transcribe_failures [of loaded_state mock_env "''stereo.wav''"] ready stereo by blast
  have len999: "length (replicate 999 (0::real)) < 1000" by simp
  have r3: "nativeTranscribeAudio mock_env ''short.wav'' loaded_state =
      Returned ''Error: Audio file too short''
        (loaded_state\<lparr>calls := calls loaded_state @
           [Drwav_init_file ''short.wav'', Drwav_read_pcm_frames_f32 999, Drwav_uninit]\<rparr>)"
    using transcribe_failures [of loaded_state mock_env "''short.wav''"] ready read_short len999
    by blast
  have len1000: "1000 \<le> length (replicate 1000 (0::real))" by simp
  have r4: "nativeTranscribeAudio failing_env ''speech.wav'' loaded_state =
      Returned ''Error: Failed to process audio''
        (loaded_state\<lparr>calls := calls loaded_state @
           ([Drwav_init_file ''speech.wav'', Drwav_read_pcm_frames_f32 1000, Drwav_uninit] @
            [Whisper_full 1 (transcribe_params failing_env) (replicate 1000 0)])\<rparr>)"
    using transcribe_failures [of loaded_state failing_env "''speech.wav''"]
      ready read_speech_failing len1000 bad
    by blast
  from empty r1 ready stereo r2 r3 bad r4 show ?thesis by simp
qed

subsection \<open>Model lifecycle\<close>

lemma release_ctx_owned:
  "owns_live s \<Longrightarrow>
   release_ctx s = \<lparr>ctx = None, live = [], calls = calls s @ freed s\<rparr>"
  by (cases "ctx s") (simp_all add: owns_live_def release_ctx_def whisper_free_def freed_def)

lemma nativeInitModel_owned:
  assumes "owns_live s"
  shows "nativeInitModel e modelPath s =
    (whisper_init_from_file e modelPath \<noteq> None,
     \<lparr>ctx = whisper_init_from_file e modelPath,
      live = (case whisper_init_from_file e modelPath of None \<Rightarrow> [] | Some c \<Rightarrow> [c]),
      calls = calls s @ freed s @ [Whisper_init_from_file modelPath]\<rparr>)"
  by (cases "whisper_init_from_file e modelPath")
    (simp_all add: nativeInitModel_def release_ctx_owned [OF assms] whisper_init_def)

lemma owns_live_init: "owns_live s \<Longrightarrow> owns_live (snd (nativeInitModel e modelPath s))"
  by (simp add: nativeInitModel_owned) (simp add: owns_live_def)

lemma nativeFreeModel_eq: "nativeFreeModel s = release_ctx s"
  by (simp add: nativeFreeModel_def release_ctx_def)

lemma owns_live_free: "owns_live s \<Longrightarrow> owns_live (nativeFreeModel s)"
  by (simp add: nativeFreeModel_eq release_ctx_owned) (simp add: owns_live_def)

lemma owns_live_step: "step r s = Some s' \<Longrightarrow> owns_live s \<Longrightarrow> owns_live s'"
proof (cases r)
  case (InitModel e p)
  assume "step r s = Some s'" "owns_live s"
  with InitModel show ?thesis using owns_live_init [of s e p] by auto
next
  case (TranscribeAudio e p)
  assume "step r s = Some s'" "owns_live s"
  with TranscribeAudio show ?thesis
    using transcribe_unchanged [of e p s _ s']
    by (auto simp: owns_live_def split: transcribe_outcome.splits)
next
  case FreeModel
  assume "step r s = Some s'" "owns_live s"
  with FreeModel show ?thesis using owns_live_free [of s] by auto
qed

lemma owns_live_run: "run rs s = Some s' \<Longrightarrow> owns_live s \<Longrightarrow> owns_live s'"
proof (induction rs arbitrary: s)
  case Nil
  then show ?case by simp
next
  case (Cons r rs)
  then show ?case by (auto split: option.splits dest: owns_live_step)
qed

lemma owns_live_initial: "owns_live initial_state"
  by (simp add: owns_live_def initial_state_def)

lemma owns_live_length: "owns_live s \<Longrightarrow> length (live s) \<le> 1"
  by (simp add: owns_live_def split: option.splits)

text \<open>
  Claim C8. In every state the bridge can reach from process start, at most one context is live.
  \<^verbatim>\<open>nativeInitModel\<close> first releases the loaded context, if any (\<^verbatim>\<open>whisper_free\<close> is recorded before
  \<^verbatim>\<open>whisper_init_from_file\<close>, and no context is live in between); afterwards the only live context
  is the new one, or none when the load failed, in which case the pointer is null and the result
  \<^verbatim>\<open>false\<close>. Hence two loads in a row leave the same contexts live as the second load alone.
\<close>
theorem load_replaces_context:
  "run rs initial_state = Some s \<longrightarrow>
     length (live s) \<le> 1 \<and>
     release_ctx s = \<lparr>ctx = None, live = [], calls = calls s @ freed s\<rparr> \<and>
     nativeInitModel e modelPath s =
       (whisper_init_from_file e modelPath \<noteq> None,
        \<lparr>ctx = whisper_init_from_file e modelPath,
         live = (case whisper_init_from_file e modelPath of None \<Rightarrow> [] | Some c \<Rightarrow> [c]),
         calls = calls s @ freed s @ [Whisper_init_from_file modelPath]\<rparr>) \<and>
     live (snd (nativeInitModel e modelPath (snd (nativeInitModel e' modelPath' s)))) =
       live (snd (nativeInitModel e modelPath s))"
proof
  assume "run rs initial_state = Some s"
  then have own: "owns_live s" using owns_live_initial by (rule owns_live_run)
  define s1 where "s1 =
     \<lparr>ctx = whisper_init_from_file e' modelPath',
      live = (case whisper_init_from_file e' modelPath' of None \<Rightarrow> [] | Some c \<Rightarrow> [c]),
      calls = calls s @ freed s @ [Whisper_init_from_file modelPath']\<rparr>"
  have first: "snd (nativeInitModel e' modelPath' s) = s1"
    by (simp add: nativeInitModel_owned [OF own] s1_def)
  have own1: "owns_live s1" by (simp add: owns_live_def s1_def)
  have twice: "live (snd (nativeInitModel e modelPath (snd (nativeInitModel e' modelPath' s)))) =
       live (snd (nativeInitModel e modelPath s))"
    unfolding first by (simp add: nativeInitModel_owned [OF own] nativeInitModel_owned [OF own1])
  from owns_live_length [OF own] release_ctx_owned [OF own] nativeInitModel_owned [OF own] twice
  show "length (live s) \<le> 1 \<and>
     release_ctx s = \<lparr>ctx = None, live = [], calls = calls s @ freed s\<rparr> \<and>
     nativeInitModel e modelPath s =
       (whisper_init_from_file e modelPath \<noteq> None,
        \<lparr>ctx = whisper_init_from_file e modelPath,
         live = (case whisper_init_from_file e modelPath of None \<Rightarrow> [] | Some c \<Rightarrow> [c]),
         calls = calls s @ freed s @ [Whisper_init_from_file modelPath]\<rparr>) \<and>
     live (snd (nativeInitModel e modelPath (snd (nativeInitModel e' modelPath' s)))) =
       live (snd (nativeInitModel e modelPath s))"
    by (intro conjI)
qed

lemma run_load_a: "run [InitModel mock_env ''a.bin''] initial_state = Some loaded_state"
  by (simp add: nativeInitModel_def release_ctx_def whisper_init_def initial_state_def
      loaded_state_def mock_env_def)

theorem load_replaces_context_witness:
  "run [InitModel mock_env ''a.bin''] initial_state = Some loaded_state \<and>
   length (live loaded_state) \<le> 1 \<and>
   nativeInitModel mock_env ''b.bin'' loaded_state =
     (True, \<lparr>ctx = Some 2, live = [2],
        calls = [Whisper_init_from_file ''a.bin'', Whisper_free 1, Whisper_init_from_file ''b.bin'']\<rparr>) \<and>
   nativeInitModel mock_env ''none.bin'' loaded_state =
     (False, \<lparr>ctx = None, live = [],
        calls = [Whisper_init_from_file ''a.bin'', Whisper_free 1, Whisper_init_from_file ''none.bin'']\<rparr>)"
proof -
  have sel: "whisper_init_from_file mock_env ''b.bin'' = Some 2"
    "whisper_init_from_file mock_env ''none.bin'' = None"
    by (simp_all add: mock_env_def)
  show ?thesis
    using run_load_a
      load_replaces_context [of "[InitModel mock_env ''a.bin'']" loaded_state mock_env "''b.bin''" mock_env "''a.bin''"]
      load_replaces_context [of "[InitModel mock_env ''a.bin'']" loaded_state mock_env "''none.bin''" mock_env "''a.bin''"]
    by (simp add: sel freed_def loaded_state_def)
qed

text \<open>
  Claim C9. \<^verbatim>\<open>nativeFreeModel\<close> leaves the pointer null. With a loaded context it calls
  \<^verbatim>\<open>whisper_free\<close> on it once; with a null pointer it changes nothing and calls nothing. So a
  second call right after the first is a no-op: no context is freed twice.
\<close>
theorem free_idempotent:
  "nativeFreeModel (nativeFreeModel s) = nativeFreeModel s \<and>
   ctx (nativeFreeModel s) = None \<and>
   (ctx s = None \<longrightarrow> nativeFreeModel s = s) \<and>
   (\<forall>c. ctx s = Some c \<longrightarrow>
      nativeFreeModel s =
        s\<lparr>ctx := None, live := remove1 c (live s), calls := calls s @ [Whisper_free c]\<rparr>)"
  by (cases "ctx s") (simp_all add: nativeFreeModel_def whisper_free_def)

theorem free_idempotent_witness:
  "ctx loaded_state = Some 1 \<and>
   nativeFreeModel loaded_state =
     \<lparr>ctx = None, live = [], calls = [Whisper_init_from_file ''a.bin'', Whisper_free 1]\<rparr> \<and>
   nativeFreeModel (nativeFreeModel loaded_state) =
     \<lparr>ctx = None, live = [], calls = [Whisper_init_from_file ''a.bin'', Whisper_free 1]\<rparr> \<and>
   ctx initial_state = None \<and> nativeFreeModel initial_state = initial_state"
  using free_idempotent [of loaded_state] free_idempotent [of initial_state]
  by (simp add: loaded_state_def initial_state_def nativeFreeModel_def whisper_free_def)

end
